theory Spec2Isabelle
  imports Main
begin

section \<open>The token endpoint of \<^verbatim>\<open>notifier-endpoint/api/notifier.js\<close>\<close>

text \<open>
  The file exports one asynchronous \<^verbatim>\<open>handler(req, res)\<close>. It answers a POST by
  cleaning up the blobs whose name starts with \<^verbatim>\<open>TOKEN_PREFIX\<close> and storing a new
  token record, and a GET by listing those blobs, reading the most recently uploaded
  one and reporting whether the token in it is still valid.

  The embedding is sequential: every \<^verbatim>\<open>await\<close> is a call that returns its reply and
  the new state of the blob service. Requests are recorded in the order in which the
  handler issues them. \<^verbatim>\<open>console.log\<close> and its relatives have no effect on the
  response or on the store and are left out.
\<close>

subsection \<open>JavaScript values\<close>

text \<open>
  The values that occur as fields of a request body or of a token record. \<open>JNum n\<close>
  is the integral number \<open>n\<close>, of magnitude below \<open>10\<^sup>2\<^sup>1\<close> (where JavaScript prints a
  number as its plain decimal digits); \<open>JNaN\<close> is the number NaN. Fractional numbers,
  arrays and nested objects do not occur in a token record and are not represented.
  Strings are ASCII.
\<close>

datatype jsval = JUndefined | JNull | JBool bool | JNum int | JNaN | JStr string

text \<open>An object is the list of its own properties; a name that is absent reads as
  \<^verbatim>\<open>undefined\<close>.\<close>

type_synonym jsobj = "(string \<times> jsval) list"

definition get_prop :: "jsobj \<Rightarrow> string \<Rightarrow> jsval" where
  "get_prop obj k = (case map_of obj k of None \<Rightarrow> JUndefined | Some v \<Rightarrow> v)"

text \<open>ToBoolean, as used by \<^verbatim>\<open>!x\<close>, \<^verbatim>\<open>x && y\<close> and \<^verbatim>\<open>x ? y : z\<close>.\<close>

fun truthy :: "jsval \<Rightarrow> bool" where
  "truthy JUndefined = False"
| "truthy JNull = False"
| "truthy (JBool b) = b"
| "truthy (JNum n) = (n \<noteq> 0)"
| "truthy JNaN = False"
| "truthy (JStr s) = (s \<noteq> [])"

text \<open>
  \<^verbatim>\<open>JSON.stringify\<close> of an object, read back: a property whose value is
  \<^verbatim>\<open>undefined\<close> is left out and NaN is written as \<^verbatim>\<open>null\<close>. A JSON text is
  represented by the object that \<^verbatim>\<open>JSON.parse\<close> makes of it.
\<close>

definition json_value :: "jsval \<Rightarrow> jsval" where
  "json_value v = (if v = JNaN then JNull else v)"

definition json_stringify :: "jsobj \<Rightarrow> jsobj" where
  "json_stringify obj =
     map (\<lambda>(k, v). (k, json_value v)) (filter (\<lambda>(k, v). v \<noteq> JUndefined) obj)"

subsection \<open>Numbers and strings\<close>

definition digit_char :: "int \<Rightarrow> char" where
  "digit_char d = char_of (48 + d)"

text \<open>The decimal digits of a number that is not negative.\<close>

function show_digits :: "int \<Rightarrow> string" where
  "show_digits n =
     (if n < 10 then [digit_char n] else show_digits (n div 10) @ [digit_char (n mod 10)])"
  by pat_completeness auto
termination
  by (relation "measure nat") auto

declare show_digits.simps [simp del]

text \<open>Number to string inside a template literal (decimal digits; this is what
  JavaScript prints for an integer of magnitude below \<open>10\<^sup>2\<^sup>1\<close>).\<close>

definition show_int :: "int \<Rightarrow> string" where
  "show_int i = (if i < 0 then CHR ''-'' # show_digits (- i) else show_digits i)"

definition show_nat :: "nat \<Rightarrow> string" where
  "show_nat n = show_digits (int n)"

fun js_ToString :: "jsval \<Rightarrow> string" where
  "js_ToString JUndefined = ''undefined''"
| "js_ToString JNull = ''null''"
| "js_ToString (JBool b) = (if b then ''true'' else ''false'')"
| "js_ToString (JNum n) = show_int n"
| "js_ToString JNaN = ''NaN''"
| "js_ToString (JStr s) = s"

definition is_space :: "char \<Rightarrow> bool" where
  "is_space c = (let n = (of_char c :: int) in (9 \<le> n \<and> n \<le> 13) \<or> n = 32)"

definition digit_of :: "int \<Rightarrow> char \<Rightarrow> int option" where
  "digit_of radix c =
     (let n = (of_char c :: int);
          d = (if 48 \<le> n \<and> n \<le> 57 then Some (n - 48)
               else if 97 \<le> n \<and> n \<le> 122 then Some (n - 87)
               else if 65 \<le> n \<and> n \<le> 90 then Some (n - 55)
               else None)
      in case d of None \<Rightarrow> None | Some v \<Rightarrow> if v < radix then Some v else None)"

fun parse_digits :: "int \<Rightarrow> string \<Rightarrow> int option \<Rightarrow> int option" where
  "parse_digits radix [] acc = acc"
| "parse_digits radix (c # cs) acc =
     (case digit_of radix c of
        None \<Rightarrow> acc
      | Some d \<Rightarrow> parse_digits radix cs (Some (radix * (case acc of None \<Rightarrow> 0 | Some a \<Rightarrow> a) + d)))"

text \<open>
  \<^verbatim>\<open>parseInt(v)\<close> with no radix: the argument is converted to a string, leading white
  space and a sign are removed, a \<^verbatim>\<open>0x\<close> prefix selects base 16, and the longest run
  of digits is read. \<open>None\<close> is NaN (no digit was read).
\<close>

definition js_parseInt :: "jsval \<Rightarrow> int option" where
  "js_parseInt v =
     (let s1 = dropWhile is_space (js_ToString v);
          neg = (take 1 s1 = ''-'');
          s2 = (if take 1 s1 = ''-'' \<or> take 1 s1 = ''+'' then drop 1 s1 else s1);
          hex = (take 2 s2 = ''0x'' \<or> take 2 s2 = ''0X'');
          s3 = (if hex then drop 2 s2 else s2)
      in case parse_digits (if hex then 16 else 10) s3 None of
           None \<Rightarrow> None
         | Some n \<Rightarrow> Some (if neg then - n else n))"

text \<open>
  \<^verbatim>\<open>new Date(x)\<close> for a number \<open>x\<close>: the time value in milliseconds, or \<open>None\<close> for an
  invalid date (\<open>x\<close> is NaN or beyond 8.64e15 in magnitude).
\<close>

definition js_Date :: "int option \<Rightarrow> int option" where
  "js_Date x = (case x of None \<Rightarrow> None
                | Some t \<Rightarrow> if \<bar>t\<bar> \<le> 8640000000000000 then Some t else None)"

text \<open>
  \<^verbatim>\<open>Math.round(ms / (1000 * 60 * 60))\<close> for an integral \<open>ms\<close>: the nearest integer,
  a half rounded up. For the differences of two time values the floating-point quotient
  rounds to the same integer as the exact one.
\<close>

definition round_hours :: "int \<Rightarrow> int" where
  "round_hours ms = (ms + 1800000) div 3600000"

text \<open>\<^verbatim>\<open>Math.round((new Date(parseInt(e)) - new Date()) / (1000 * 60 * 60))\<close>, the second
  date being the clock reading \<open>now\<close>.\<close>

definition hours_until :: "jsval \<Rightarrow> int \<Rightarrow> jsval" where
  "hours_until e now =
     (case js_Date (js_parseInt e) of None \<Rightarrow> JNaN | Some t \<Rightarrow> JNum (round_hours (t - now)))"

text \<open>\<^verbatim>\<open>hay.includes(needle)\<close>.\<close>

fun str_includes :: "string \<Rightarrow> string \<Rightarrow> bool" where
  "str_includes needle [] = (needle = [])"
| "str_includes needle (c # cs) =
     (take (length needle) (c # cs) = needle \<or> str_includes needle cs)"

text \<open>
  \<^verbatim>\<open>xs.sort(cmp)\<close>: a stable sort; \<open>a\<close> goes before \<open>b\<close> when \<open>cmp a b < 0\<close> and elements
  that compare equal keep their order.
\<close>

fun insert_sorted :: "('a \<Rightarrow> 'a \<Rightarrow> int) \<Rightarrow> 'a \<Rightarrow> 'a list \<Rightarrow> 'a list" where
  "insert_sorted cmp x [] = [x]"
| "insert_sorted cmp x (y # ys) =
     (if cmp x y \<le> 0 then x # y # ys else y # insert_sorted cmp x ys)"

definition js_sort :: "('a \<Rightarrow> 'a \<Rightarrow> int) \<Rightarrow> 'a list \<Rightarrow> 'a list" where
  "js_sort cmp xs = foldr (insert_sorted cmp) xs []"

subsection \<open>The blob service\<close>

text \<open>
  The handler reaches the store only through \<^verbatim>\<open>fetch\<close>. A blob has a URL, a path
  name, an upload time (milliseconds) and a content. The content is kept as what
  \<^verbatim>\<open>JSON.parse\<close> makes of it: a syntax error with its message, \<^verbatim>\<open>null\<close>, or an
  object (a JSON value that is neither has none of the properties the handler reads and
  is the empty object here).
\<close>

datatype parsed = SyntaxError string | ParsedNull | ParsedObject jsobj

record blob =
  url :: string
  pathname :: string
  uploadedAt :: int
  content :: parsed

datatype blob_request =
    ListBlobs string
  | DeleteBlob string
  | PutBlob string jsobj
  | GetBlob string

text \<open>
  What the handler can observe of each call: the promise rejects with an error message,
  the response is not \<^verbatim>\<open>ok\<close> (with its status, and its text where the handler reads
  it), reading the body of an \<^verbatim>\<open>ok\<close> response as JSON throws, or the call succeeds. A
  listing that succeeds carries the \<^verbatim>\<open>blobs\<close> array, \<open>None\<close> when the field is missing;
  the reply to a PUT that succeeds carries the parsed body,
  \<open>None\<close> when it is \<^verbatim>\<open>null\<close>.
\<close>

datatype list_reply =
    ListRejected string
  | ListNotOk nat
  | ListGarbled string
  | ListOk "blob list option"

datatype delete_reply = DeleteRejected string | DeleteStatus nat

datatype put_reply =
    PutRejected string
  | PutNotOk nat string
  | PutGarbled string
  | PutOk "jsobj option"

datatype get_reply = GetRejected string | GetNotOk nat | GetOk parsed

text \<open>
  The service is external to the repository. Its state is the list of blobs; a fault,
  where one is set, is the reply of the call and leaves the blobs as they are. Without
  a fault a listing returns the blobs whose path name starts with the prefix, a DELETE
  removes the blob at the URL, a PUT stores the body under the given name (replacing a
  blob of that name) and a GET returns the content of the blob at the URL.
\<close>

record world =
  blobs :: "blob list"
  list_fault :: "list_reply option"
  delete_fault :: "string \<Rightarrow> delete_reply option"
  put_fault :: "put_reply option"
  get_fault :: "string \<Rightarrow> get_reply option"
  assign_url :: "string \<Rightarrow> string"
  upload_clock :: int
  requests :: "blob_request list"

definition has_prefix :: "string \<Rightarrow> blob \<Rightarrow> bool" where
  "has_prefix p b = (take (length p) (pathname b) = p)"

definition issue :: "blob_request \<Rightarrow> world \<Rightarrow> world" where
  "issue rq w = w\<lparr>requests := requests w @ [rq]\<rparr>"

text \<open>The reply of each call, and what the call does to the blobs.\<close>

definition list_answer :: "string \<Rightarrow> world \<Rightarrow> list_reply" where
  "list_answer p w =
     (case list_fault w of
        Some r \<Rightarrow> r
      | None \<Rightarrow> ListOk (Some (filter (has_prefix p) (blobs w))))"

definition delete_answer :: "string \<Rightarrow> world \<Rightarrow> delete_reply" where
  "delete_answer u w = (case delete_fault w u of Some r \<Rightarrow> r | None \<Rightarrow> DeleteStatus 200)"

definition delete_effect :: "string \<Rightarrow> world \<Rightarrow> world" where
  "delete_effect u w =
     (case delete_fault w u of
        Some r \<Rightarrow> w
      | None \<Rightarrow> w\<lparr>blobs := filter (\<lambda>b. url b \<noteq> u) (blobs w)\<rparr>)"

definition new_blob :: "world \<Rightarrow> string \<Rightarrow> jsobj \<Rightarrow> blob" where
  "new_blob w name data =
     \<lparr>url = assign_url w name, pathname = name, uploadedAt = upload_clock w,
      content = ParsedObject data\<rparr>"

definition put_answer :: "string \<Rightarrow> world \<Rightarrow> put_reply" where
  "put_answer name w =
     (case put_fault w of
        Some r \<Rightarrow> r
      | None \<Rightarrow> PutOk (Some [(''url'', JStr (assign_url w name)), (''pathname'', JStr name)]))"

definition put_effect :: "string \<Rightarrow> jsobj \<Rightarrow> world \<Rightarrow> world" where
  "put_effect name data w =
     (case put_fault w of
        Some r \<Rightarrow> w
      | None \<Rightarrow>
          w\<lparr>blobs := filter (\<lambda>b. pathname b \<noteq> name) (blobs w) @ [new_blob w name data]\<rparr>)"

definition get_answer :: "string \<Rightarrow> world \<Rightarrow> get_reply" where
  "get_answer u w =
     (case get_fault w u of
        Some r \<Rightarrow> r
      | None \<Rightarrow>
          (case find (\<lambda>b. url b = u) (blobs w) of
             None \<Rightarrow> GetNotOk 404
           | Some b \<Rightarrow> GetOk (content b)))"

text \<open>\<^verbatim>\<open>await fetch(...)\<close> for each of the four requests the handler makes.\<close>

definition blob_list :: "string \<Rightarrow> world \<Rightarrow> list_reply \<times> world" where
  "blob_list p w = (list_answer p w, issue (ListBlobs p) w)"

definition blob_delete :: "string \<Rightarrow> world \<Rightarrow> delete_reply \<times> world" where
  "blob_delete u w = (delete_answer u w, delete_effect u (issue (DeleteBlob u) w))"

definition blob_put :: "string \<Rightarrow> jsobj \<Rightarrow> world \<Rightarrow> put_reply \<times> world" where
  "blob_put name data w = (put_answer name w, put_effect name data (issue (PutBlob name data) w))"

definition blob_get :: "string \<Rightarrow> world \<Rightarrow> get_reply \<times> world" where
  "blob_get u w = (get_answer u w, issue (GetBlob u) w)"

subsection \<open>Request, response, environment\<close>

record request =
  req_method :: string
  body :: "jsobj option"

text \<open>\<open>body = None\<close> is a request without a body (\<^verbatim>\<open>req.body\<close> is \<^verbatim>\<open>undefined\<close>; a
  body that is \<^verbatim>\<open>null\<close> takes the same path, with the last word of the error message
  changed); a body that is a primitive value has none of the properties read and behaves
  as the empty object.\<close>

record http_response =
  status :: nat
  headers :: "(string \<times> string) list"
  payload :: "jsobj option"

text \<open>
  The environment of one invocation: the variable \<^verbatim>\<open>BLOB_READ_WRITE_TOKEN\<close>, the
  system clock as read by each \<^verbatim>\<open>new Date()\<close> and \<^verbatim>\<open>Date.now()\<close> (every one of
  them runs at most once per invocation: line 5, line 46, line 84, line 160, line 162),
  and \<^verbatim>\<open>Date.prototype.toISOString\<close>, whose output format no property below depends on.
\<close>

record runtime =
  BLOB_READ_WRITE_TOKEN :: "string option"
  toISOString :: "int \<Rightarrow> string"
  now_entry :: int
  now_stored :: int
  now_filename :: int
  now_expired :: int
  now_until :: int

definition TOKEN_PREFIX :: string where
  "TOKEN_PREFIX = ''upstox_access_token''"

definition cors_headers :: "(string \<times> string) list" where
  "cors_headers =
     [(''Access-Control-Allow-Origin'', ''*''),
      (''Access-Control-Allow-Methods'', ''GET, POST, OPTIONS''),
      (''Access-Control-Allow-Headers'', ''Content-Type, X-API-Key, Authorization'')]"

text \<open>\<^verbatim>\<open>res.status(code).json(obj)\<close> and \<^verbatim>\<open>res.status(code).end()\<close>.\<close>

definition respond_json :: "nat \<Rightarrow> jsobj \<Rightarrow> http_response" where
  "respond_json code obj =
     \<lparr>status = code, headers = cors_headers, payload = Some (json_stringify obj)\<rparr>"

definition respond_end :: "nat \<Rightarrow> http_response" where
  "respond_end code = \<lparr>status = code, headers = cors_headers, payload = None\<rparr>"

text \<open>\<^verbatim>\<open>!process.env.BLOB_READ_WRITE_TOKEN\<close>: the variable is unset or empty.\<close>

definition configured :: "runtime \<Rightarrow> bool" where
  "configured rt = (case BLOB_READ_WRITE_TOKEN rt of None \<Rightarrow> False | Some t \<Rightarrow> t \<noteq> [])"

subsection \<open>POST (lines 27 to 119)\<close>

text \<open>Lines 39 to 47.\<close>

definition tokenData :: "runtime \<Rightarrow> jsobj \<Rightarrow> jsobj" where
  "tokenData rt b =
     [(''access_token'', get_prop b ''access_token''),
      (''expires_at'', get_prop b ''expires_at''),
      (''issued_at'', get_prop b ''issued_at''),
      (''client_id'', get_prop b ''client_id''),
      (''user_id'', get_prop b ''user_id''),
      (''stored_at'', JStr (toISOString rt (now_entry rt))),
      (''expires_in_hours'',
         if truthy (get_prop b ''expires_at'')
         then hours_until (get_prop b ''expires_at'') (now_stored rt) else JNull)]"

text \<open>Lines 64 to 76: one DELETE for each listed blob. A rejected promise is caught
  inside the callback and the status of a response is only logged.\<close>

fun delete_all :: "blob list \<Rightarrow> world \<Rightarrow> world" where
  "delete_all [] w = w"
| "delete_all (b # bs) w = delete_all bs (snd (blob_delete (url b) w))"

text \<open>Lines 53 to 81: whatever goes wrong with the listing is caught and the handler
  continues.\<close>

definition cleanup :: "world \<Rightarrow> world" where
  "cleanup w =
     (let (l, w1) = blob_list TOKEN_PREFIX w in
      case l of
        ListOk (Some bs) \<Rightarrow> if bs \<noteq> [] then delete_all bs w1 else w1
      | _ \<Rightarrow> w1)"

definition uniqueFilename :: "runtime \<Rightarrow> string" where
  "uniqueFilename rt = TOKEN_PREFIX @ ''_'' @ show_int (now_filename rt) @ ''.json''"

text \<open>Lines 111 to 118.\<close>

definition store_error :: "string \<Rightarrow> http_response" where
  "store_error msg =
     respond_json 500
       [(''success'', JBool False),
        (''message'', JStr ''Failed to update access token''),
        (''error'', JStr msg)]"

text \<open>Lines 210 to 218.\<close>

definition critical_error :: "string \<Rightarrow> http_response" where
  "critical_error msg =
     respond_json 500
       [(''success'', JBool False),
        (''message'', JStr ''Internal server error''),
        (''error'', JStr msg)]"

text \<open>Lines 94 to 117, from the reply to the PUT to the response; \<open>td\<close> is
  \<^verbatim>\<open>tokenData\<close>.\<close>

definition store_outcome :: "runtime \<Rightarrow> jsobj \<Rightarrow> put_reply \<Rightarrow> http_response" where
  "store_outcome rt td r =
     (case r of
        PutRejected msg \<Rightarrow> store_error msg
      | PutNotOk st txt \<Rightarrow> store_error (''Blob API error: '' @ show_nat st @ '' - '' @ txt)
      | PutGarbled msg \<Rightarrow> store_error msg
      | PutOk None \<Rightarrow> store_error ''Cannot read properties of null (reading 'url')''
      | PutOk (Some result) \<Rightarrow>
          respond_json 200
            [(''success'', JBool True),
             (''message'', JStr ''Access token updated successfully''),
             (''expires_in_hours'', get_prop td ''expires_in_hours''),
             (''stored_at'', JStr (toISOString rt (now_entry rt))),
             (''client_id'', get_prop td ''client_id'')])"

text \<open>A body that is \<^verbatim>\<open>undefined\<close> or \<^verbatim>\<open>null\<close> makes the destructuring of
  line 29 throw; the error reaches the outer \<^verbatim>\<open>catch\<close>.\<close>

definition handle_post :: "runtime \<Rightarrow> request \<Rightarrow> world \<Rightarrow> http_response \<times> world" where
  "handle_post rt req w =
     (case body req of
        None \<Rightarrow>
          (critical_error
             ''Cannot destructure property 'access_token' of 'req.body' as it is undefined.'', w)
      | Some b \<Rightarrow>
          if \<not> truthy (get_prop b ''access_token'')
          then (respond_json 400
                  [(''success'', JBool False), (''message'', JStr ''access_token is required'')], w)
          else
            (let w1 = cleanup w;
                 (r, w2) = blob_put (uniqueFilename rt) (json_stringify (tokenData rt b)) w1
             in (store_outcome rt (tokenData rt b) r, w2)))"

subsection \<open>GET (lines 121 to 203)\<close>

definition not_found :: http_response where
  "not_found =
     respond_json 404
       [(''success'', JBool False),
        (''message'', JStr ''No access token found. Please generate a new token first.'')]"

text \<open>Lines 187 to 202.\<close>

definition get_error :: "string \<Rightarrow> http_response" where
  "get_error msg =
     (if str_includes ''404'' msg \<or> str_includes ''not found'' msg then not_found
      else respond_json 500
             [(''success'', JBool False),
              (''message'', JStr ''Failed to retrieve token''),
              (''error'', JStr msg)])"

text \<open>The comparator of line 146.\<close>

definition newest_first :: "blob \<Rightarrow> blob \<Rightarrow> int" where
  "newest_first a b = uploadedAt b - uploadedAt a"

text \<open>Line 160. The value is \<^verbatim>\<open>tokenData.expires_at\<close> itself when that is falsy, and
  the outcome of the comparison otherwise; only its truth is used.\<close>

definition isExpired :: "runtime \<Rightarrow> jsobj \<Rightarrow> bool" where
  "isExpired rt td =
     (truthy (get_prop td ''expires_at'') \<and>
      (case js_Date (js_parseInt (get_prop td ''expires_at'')) of
         None \<Rightarrow> False
       | Some t \<Rightarrow> now_expired rt > t))"

text \<open>Lines 161 to 163.\<close>

definition timeUntilExpiry :: "runtime \<Rightarrow> jsobj \<Rightarrow> jsval" where
  "timeUntilExpiry rt td =
     (if truthy (get_prop td ''expires_at'')
      then hours_until (get_prop td ''expires_at'') (now_until rt) else JNull)"

text \<open>Lines 160 to 185. \<^verbatim>\<open>toISOString\<close> throws a RangeError on an invalid date.\<close>

definition report :: "runtime \<Rightarrow> jsobj \<Rightarrow> http_response" where
  "report rt td =
     (if isExpired rt td
      then (case js_Date (js_parseInt (get_prop td ''expires_at'')) of
              None \<Rightarrow> get_error ''Invalid time value''
            | Some t \<Rightarrow>
                respond_json 410
                  [(''success'', JBool False),
                   (''message'', JStr ''Token has expired. Please generate a new token.''),
                   (''expired_at'', JStr (toISOString rt t))])
      else respond_json 200
             [(''success'', JBool True),
              (''access_token'', get_prop td ''access_token''),
              (''expires_at'', get_prop td ''expires_at''),
              (''expires_in_hours'', timeUntilExpiry rt td),
              (''client_id'', get_prop td ''client_id''),
              (''user_id'', get_prop td ''user_id''),
              (''stored_at'', get_prop td ''stored_at''),
              (''is_valid'', JBool (\<not> isExpired rt td))])"

text \<open>Lines 152 to 185, from the reply to the GET of the blob to the response.\<close>

definition fetch_outcome :: "runtime \<Rightarrow> get_reply \<Rightarrow> http_response" where
  "fetch_outcome rt g =
     (case g of
        GetRejected msg \<Rightarrow> get_error msg
      | GetNotOk st \<Rightarrow> get_error (''Failed to fetch token content: '' @ show_nat st)
      | GetOk (SyntaxError msg) \<Rightarrow> get_error msg
      | GetOk ParsedNull \<Rightarrow>
          get_error ''Cannot read properties of null (reading 'expires_at')''
      | GetOk (ParsedObject td) \<Rightarrow> report rt td)"

definition handle_get :: "runtime \<Rightarrow> world \<Rightarrow> http_response \<times> world" where
  "handle_get rt w =
     (let (l, w1) = blob_list TOKEN_PREFIX w in
      case l of
        ListRejected msg \<Rightarrow> (get_error msg, w1)
      | ListNotOk st \<Rightarrow> (get_error (''Failed to list token files: '' @ show_nat st), w1)
      | ListGarbled msg \<Rightarrow> (get_error msg, w1)
      | ListOk None \<Rightarrow> (not_found, w1)
      | ListOk (Some bs) \<Rightarrow>
          if bs = [] then (not_found, w1)
          else
            (case js_sort newest_first bs of
               [] \<Rightarrow>
                 (get_error ''Cannot read properties of undefined (reading 'pathname')'', w1)
             | latestTokenFile # _ \<Rightarrow>
                 (let (g, w2) = blob_get (url latestTokenFile) w1
                  in (fetch_outcome rt g, w2))))"

subsection \<open>The handler\<close>

definition handler :: "runtime \<Rightarrow> request \<Rightarrow> world \<Rightarrow> http_response \<times> world" where
  "handler rt req w =
     (if req_method req = ''OPTIONS'' then (respond_end 200, w)
      else if \<not> configured rt
      then (respond_json 500
              [(''success'', JBool False), (''message'', JStr ''Blob storage not configured'')], w)
      else if req_method req = ''POST'' then handle_post rt req w
      else if req_method req = ''GET'' then handle_get rt w
      else (respond_json 405
              [(''success'', JBool False),
               (''message'', JStr (''Method '' @ req_method req @ '' not allowed''))], w))"

subsection \<open>Notions used in the statements\<close>

text \<open>The blobs named in the reply to the listing: none when the listing fails or
  carries no \<^verbatim>\<open>blobs\<close> field.\<close>

definition listed :: "world \<Rightarrow> blob list" where
  "listed w = (case list_answer TOKEN_PREFIX w of ListOk (Some bs) \<Rightarrow> bs | _ \<Rightarrow> [])"

text \<open>The PUT is answered by an \<^verbatim>\<open>ok\<close> response whose body is a JSON value other
  than \<^verbatim>\<open>null\<close>.\<close>

definition put_succeeds :: "world \<Rightarrow> bool" where
  "put_succeeds w =
     (case put_fault w of None \<Rightarrow> True | Some (PutOk (Some r)) \<Rightarrow> True | Some _ \<Rightarrow> False)"

fun is_read :: "blob_request \<Rightarrow> bool" where
  "is_read (ListBlobs p) = True"
| "is_read (GetBlob u) = True"
| "is_read (DeleteBlob u) = False"
| "is_read (PutBlob n d) = False"

text \<open>A field of the JSON body of a response.\<close>

definition field_of :: "http_response \<Rightarrow> string \<Rightarrow> jsval option" where
  "field_of r k = map_option (\<lambda>obj. get_prop obj k) (payload r)"



subsection \<open>Example inputs\<close>

text \<open>In the examples a time value is printed as its decimal digits.\<close>

definition example_runtime :: runtime where
  "example_runtime =
     \<lparr>BLOB_READ_WRITE_TOKEN = Some ''rw-token'', toISOString = show_int,
      now_entry = 1700000000000, now_stored = 1700000000001, now_filename = 1700000000002,
      now_expired = 1700000000001, now_until = 1700000000002\<rparr>"

definition unconfigured_runtime :: runtime where
  "unconfigured_runtime = example_runtime\<lparr>BLOB_READ_WRITE_TOKEN := None\<rparr>"

definition older_blob :: blob where
  "older_blob =
     \<lparr>url = ''https://blob.example/a'', pathname = ''upstox_access_token_1.json'',
      uploadedAt = 1699980000000,
      content = ParsedObject [(''access_token'', JStr ''older''), (''expires_at'', JStr ''1699990000000'')]\<rparr>"

definition old_blob :: blob where
  "old_blob =
     \<lparr>url = ''https://blob.example/b'', pathname = ''upstox_access_token_2.json'',
      uploadedAt = 1699990000000,
      content = ParsedObject [(''access_token'', JStr ''old''), (''expires_at'', JStr ''1700003600000'')]\<rparr>"

definition unrelated_blob :: blob where
  "unrelated_blob =
     \<lparr>url = ''https://blob.example/c'', pathname = ''notes.txt'',
      uploadedAt = 1699995000000, content = SyntaxError ''Unexpected token''\<rparr>"

definition example_world :: world where
  "example_world =
     \<lparr>blobs = [older_blob, old_blob, unrelated_blob],
      list_fault = None, delete_fault = (\<lambda>u. None), put_fault = None,
      get_fault = (\<lambda>u. None), assign_url = (\<lambda>n. ''https://blob.example/'' @ n),
      upload_clock = 1700000000003, requests = []\<rparr>"

definition empty_world :: world where
  "empty_world = example_world\<lparr>blobs := []\<rparr>"

text \<open>The same store when every DELETE is answered with status 500, when the listing
  is rejected, and when the PUT is answered with status 503.\<close>

definition undeletable_world :: world where
  "undeletable_world = example_world\<lparr>delete_fault := (\<lambda>u. Some (DeleteStatus 500))\<rparr>"


definition unwritable_world :: world where
  "unwritable_world = example_world\<lparr>put_fault := Some (PutNotOk 503 ''unavailable'')\<rparr>"

definition example_post :: request where
  "example_post =
     \<lparr>req_method = ''POST'',
      body = Some [(''access_token'', JStr ''tok''), (''expires_at'', JStr ''1700003600000''),
                   (''client_id'', JStr ''c1'')]\<rparr>"

definition example_get :: request where
  "example_get = \<lparr>req_method = ''GET'', body = None\<rparr>"



definition no_expiry_body :: jsobj where
  "no_expiry_body = [(''access_token'', JStr ''tok''), (''user_id'', JStr ''u1'')]"


definition world_holding :: "jsobj \<Rightarrow> world" where
  "world_holding td =
     example_world
       \<lparr>blobs := [\<lparr>url = ''https://blob.example/z'', pathname = ''upstox_access_token_9.json'',
                    uploadedAt = 1699999000000, content = ParsedObject td\<rparr>]\<rparr>"

section \<open>Properties\<close>

subsection \<open>Auxiliary facts about the blob service\<close>

lemma issue_fields [simp]:
  "blobs (issue r w) = blobs w"
  "list_fault (issue r w) = list_fault w"
  "delete_fault (issue r w) = delete_fault w"
  "put_fault (issue r w) = put_fault w"
  "get_fault (issue r w) = get_fault w"
  "assign_url (issue r w) = assign_url w"
  "upload_clock (issue r w) = upload_clock w"
  "requests (issue r w) = requests w @ [r]"
  by (simp_all add: issue_def)

lemma answers_issue [simp]:
  "list_answer p (issue r w) = list_answer p w"
  "delete_answer u (issue r w) = delete_answer u w"
  "put_answer n (issue r w) = put_answer n w"
  "get_answer u (issue r w) = get_answer u w"
  by (simp_all add: list_answer_def delete_answer_def put_answer_def get_answer_def
      split: option.splits)

lemma delete_effect_fields [simp]:
  "list_fault (delete_effect u w) = list_fault w"
  "delete_fault (delete_effect u w) = delete_fault w"
  "put_fault (delete_effect u w) = put_fault w"
  "get_fault (delete_effect u w) = get_fault w"
  "assign_url (delete_effect u w) = assign_url w"
  "upload_clock (delete_effect u w) = upload_clock w"
  "requests (delete_effect u w) = requests w"
  by (simp_all add: delete_effect_def split: option.splits)

lemma put_effect_fields [simp]:
  "list_fault (put_effect n d w) = list_fault w"
  "delete_fault (put_effect n d w) = delete_fault w"
  "put_fault (put_effect n d w) = put_fault w"
  "get_fault (put_effect n d w) = get_fault w"
  "assign_url (put_effect n d w) = assign_url w"
  "upload_clock (put_effect n d w) = upload_clock w"
  "requests (put_effect n d w) = requests w"
  by (simp_all add: put_effect_def split: option.splits)

lemma delete_all_requests:
  "requests (delete_all bs w) = requests w @ map (\<lambda>b. DeleteBlob (url b)) bs"
  by (induction bs arbitrary: w) (simp_all add: blob_delete_def)

lemma delete_all_fields [simp]:
  "list_fault (delete_all bs w) = list_fault w"
  "delete_fault (delete_all bs w) = delete_fault w"
  "put_fault (delete_all bs w) = put_fault w"
  "get_fault (delete_all bs w) = get_fault w"
  "assign_url (delete_all bs w) = assign_url w"
  "upload_clock (delete_all bs w) = upload_clock w"
  by (induction bs arbitrary: w; simp add: blob_delete_def)+

lemma cleanup_requests:
  "requests (cleanup w) =
     requests w @ ListBlobs TOKEN_PREFIX # map (\<lambda>b. DeleteBlob (url b)) (listed w)"
  by (simp add: cleanup_def blob_list_def listed_def delete_all_requests
      split: list_reply.splits option.splits)

lemma cleanup_fields [simp]:
  "put_fault (cleanup w) = put_fault w"
  "assign_url (cleanup w) = assign_url w"
  "upload_clock (cleanup w) = upload_clock w"
  by (simp_all add: cleanup_def blob_list_def split: list_reply.splits option.splits)

lemma put_answer_cleanup [simp]: "put_answer n (cleanup w) = put_answer n w"
  by (simp add: put_answer_def split: option.splits)

lemma respond_json_fields [simp]:
  "status (respond_json c obj) = c"
  "payload (respond_json c obj) = Some (json_stringify obj)"
  "headers (respond_json c obj) = cors_headers"
  by (simp_all add: respond_json_def)

lemma respond_end_fields [simp]:
  "status (respond_end c) = c"
  "payload (respond_end c) = None"
  by (simp_all add: respond_end_def)

lemma get_prop_json_Cons:
  "get_prop (json_stringify ((k, v) # rest)) k' =
     (if v = JUndefined then get_prop (json_stringify rest) k'
      else if k' = k then json_value v
      else get_prop (json_stringify rest) k')"
  by (simp add: get_prop_def json_stringify_def)

lemma get_prop_json_Nil: "get_prop (json_stringify []) k = JUndefined"
  by (simp add: get_prop_def json_stringify_def)


lemma put_succeeds_answer:
  "put_succeeds w \<longleftrightarrow> (\<exists>r. put_answer n w = PutOk (Some r))"
  by (auto simp add: put_succeeds_def put_answer_def split: option.splits put_reply.splits)

lemma store_error_status [simp]: "status (store_error msg) = 500"
  by (simp add: store_error_def)

lemma store_outcome_status:
  "status (store_outcome rt td (put_answer n w)) = (if put_succeeds w then 200 else 500)"
  by (auto simp add: store_outcome_def put_succeeds_def put_answer_def
      split: option.splits put_reply.splits)

lemma store_outcome_success:
  "put_succeeds w \<Longrightarrow>
     field_of (store_outcome rt td (put_answer n w)) ''success'' = Some (JBool True)"
  by (auto simp add: store_outcome_def put_succeeds_def put_answer_def field_of_def
      get_prop_json_Cons json_value_def split: option.splits put_reply.splits)

lemma store_outcome_failure:
  "\<not> put_succeeds w \<Longrightarrow>
     field_of (store_outcome rt td (put_answer n w)) ''success'' = Some (JBool False)"
  by (auto simp add: store_outcome_def store_error_def put_succeeds_def put_answer_def field_of_def
      get_prop_json_Cons json_value_def split: option.splits put_reply.splits)


lemma handler_post_accepted:
  assumes "configured rt" and "req_method req = ''POST''" and "body req = Some b"
    and "truthy (get_prop b ''access_token'')"
  shows "handler rt req w =
           (store_outcome rt (tokenData rt b) (put_answer (uniqueFilename rt) w),
            put_effect (uniqueFilename rt) (json_stringify (tokenData rt b))
              (issue (PutBlob (uniqueFilename rt) (json_stringify (tokenData rt b))) (cleanup w)))"
  using assms by (simp add: handler_def handle_post_def blob_put_def Let_def)

lemma handler_post_200:
  assumes "req_method req = ''POST''" and "status (fst (handler rt req w)) = 200"
  shows "configured rt \<and> (\<exists>b. body req = Some b \<and> truthy (get_prop b ''access_token'')) \<and>
         put_succeeds w"
proof -
  have c: "configured rt"
    using assms by (auto simp add: handler_def split: if_splits)
  obtain b where b: "body req = Some b"
    using assms c by (cases "body req") (auto simp add: handler_def handle_post_def critical_error_def)
  have t: "truthy (get_prop b ''access_token'')"
    using assms c b by (auto simp add: handler_def handle_post_def split: if_splits)
  have "put_succeeds w"
    using assms handler_post_accepted [OF c assms(1) b t, of w]
    by (simp add: store_outcome_status split: if_splits)
  with c b t show ?thesis by blast
qed

lemma handle_get_requests:
  "\<exists>rs. requests (snd (handle_get rt w)) = requests w @ rs \<and> (\<forall>r\<in>set rs. is_read r)"
  by (auto simp add: handle_get_def blob_list_def blob_get_def Let_def
      split: list_reply.splits option.splits list.splits)

lemma handle_get_blobs: "blobs (snd (handle_get rt w)) = blobs w"
  by (auto simp add: handle_get_def blob_list_def blob_get_def Let_def
      split: list_reply.splits option.splits list.splits)

subsection \<open>Storing a token\<close>

text \<open>
  C1. The claim reads: for every POST whose body has a non-empty \<^verbatim>\<open>access_token\<close> the
  handler writes the token fields as one JSON object under a new key that starts with
  \<^verbatim>\<open>upstox_access_token\<close> and ends in the epoch-millis timestamp, deletes every listed
  key with that prefix before the write, and answers 200 with \<^verbatim>\<open>success: true\<close> when
  the store succeeds. It holds when \<^verbatim>\<open>BLOB_READ_WRITE_TOKEN\<close> is set: the requests issued
  are the listing, one DELETE for each listed blob, and then a single PUT of the record
  under \<^verbatim>\<open>upstox_access_token_<Date.now()>.json\<close>; a PUT that succeeds gives status 200
  and \<^verbatim>\<open>success: true\<close>.
\<close>

theorem post_writes_token_record:
  assumes "configured rt" and "req_method req = ''POST''" and "body req = Some b"
    and "truthy (get_prop b ''access_token'')"
  shows "requests (snd (handler rt req w)) =
           requests w @ [ListBlobs ''upstox_access_token''] @
           map (\<lambda>x. DeleteBlob (url x)) (listed w) @
           [PutBlob (uniqueFilename rt) (json_stringify (tokenData rt b))] \<and>
         uniqueFilename rt = ''upstox_access_token'' @ ''_'' @ show_int (now_filename rt) @ ''.json'' \<and>
         (put_succeeds w \<longrightarrow>
            status (fst (handler rt req w)) = 200 \<and>
            field_of (fst (handler rt req w)) ''success'' = Some (JBool True))"
  using handler_post_accepted [OF assms, of w]
  by (simp add: cleanup_requests store_outcome_status store_outcome_success
      uniqueFilename_def TOKEN_PREFIX_def)

theorem post_writes_token_record_witness:
  "configured example_runtime \<and> req_method example_post = ''POST'' \<and>
   truthy (JStr ''tok'') \<and> put_succeeds example_world \<and>
   requests (snd (handler example_runtime example_post example_world)) =
     [ListBlobs ''upstox_access_token'',
      DeleteBlob ''https://blob.example/a'', DeleteBlob ''https://blob.example/b'',
      PutBlob ''upstox_access_token_1700000000002.json''
        [(''access_token'', JStr ''tok''), (''expires_at'', JStr ''1700003600000''),
         (''client_id'', JStr ''c1''), (''stored_at'', JStr ''1700000000000''),
         (''expires_in_hours'', JNum 1)]] \<and>
   status (fst (handler example_runtime example_post example_world)) = 200"
proof -
  have c: "configured example_runtime" by code_simp
  have m: "req_method example_post = ''POST''" by code_simp
  have b: "body example_post =
    Some [(''access_token'', JStr ''tok''), (''expires_at'', JStr ''1700003600000''),
          (''client_id'', JStr ''c1'')]" by code_simp
  have t: "truthy (get_prop [(''access_token'', JStr ''tok''), (''expires_at'', JStr ''1700003600000''),
          (''client_id'', JStr ''c1'')] ''access_token'')" by code_simp
  have p: "put_succeeds example_world" by code_simp
  have l: "listed example_world = [older_blob, old_blob]" by code_simp
  have u: "uniqueFilename example_runtime = ''upstox_access_token_1700000000002.json''" by code_simp
  have d: "json_stringify (tokenData example_runtime [(''access_token'', JStr ''tok''), (''expires_at'', JStr ''1700003600000''),
          (''client_id'', JStr ''c1'')]) = [(''access_token'', JStr ''tok''), (''expires_at'', JStr ''1700003600000''),
         (''client_id'', JStr ''c1''), (''stored_at'', JStr ''1700000000000''),
         (''expires_in_hours'', JNum 1)]" by code_simp
  have r: "requests example_world = []" by code_simp
  have ua: "url older_blob = ''https://blob.example/a''" by code_simp
  have ub: "url old_blob = ''https://blob.example/b''" by code_simp
  show ?thesis
    using post_writes_token_record [OF c m b t, of example_world] c m p
    by (simp add: l u d r ua ub)
qed


text \<open>
  C1, without the configuration: the same request with \<^verbatim>\<open>BLOB_READ_WRITE_TOKEN\<close> unset
  is answered with status 500 and nothing is written, though the token is non-empty and
  the store would accept the PUT.
\<close>

theorem post_unconfigured_counterexample:
  "req_method example_post = ''POST'' \<and>
   body example_post =
     Some [(''access_token'', JStr ''tok''), (''expires_at'', JStr ''1700003600000''),
           (''client_id'', JStr ''c1'')] \<and>
   put_succeeds example_world \<and>
   requests (snd (handler unconfigured_runtime example_post example_world)) = [] \<and>
   status (fst (handler unconfigured_runtime example_post example_world)) = 500"
  by code_simp

subsection \<open>Reading does not write\<close>

text \<open>
  C8. A GET request never modifies the blob store: the blobs after the request are the
  blobs before it, and every request the handler issues is a listing or a read, never a
  DELETE or a PUT.
\<close>

theorem get_is_read_only:
  "req_method req = ''GET'' \<Longrightarrow>
     blobs (snd (handler rt req w)) = blobs w \<and>
     (\<exists>rs. requests (snd (handler rt req w)) = requests w @ rs \<and> (\<forall>r\<in>set rs. is_read r))"
  using handle_get_requests [of rt w] handle_get_blobs [of rt w]
  by (simp add: handler_def)

theorem get_is_read_only_witness:
  "req_method example_get = ''GET'' \<and>
   blobs (snd (handler example_runtime example_get example_world)) = blobs example_world \<and>
   requests (snd (handler example_runtime example_get example_world)) =
     [ListBlobs ''upstox_access_token'', GetBlob ''https://blob.example/b'']"
proof -
  have m: "req_method example_get = ''GET''" by code_simp
  have r: "requests (snd (handler example_runtime example_get example_world)) =
     [ListBlobs ''upstox_access_token'', GetBlob ''https://blob.example/b'']" by code_simp
  show ?thesis
    using get_is_read_only [OF m, of example_runtime example_world] m r by simp
qed

subsection \<open>Missing configuration\<close>

text \<open>
  C9. When \<^verbatim>\<open>BLOB_READ_WRITE_TOKEN\<close> is unset or empty, a GET or a POST is answered with
  status 500, \<^verbatim>\<open>success: false\<close> and the message "Blob storage not configured", and the
  blob service is left as it was, no request having been issued. An OPTIONS request is
  answered with status 200 before the configuration is looked at.
\<close>

theorem unconfigured_rejected:
  "((BLOB_READ_WRITE_TOKEN rt = None \<or> BLOB_READ_WRITE_TOKEN rt = Some []) \<and>
    (req_method req = ''GET'' \<or> req_method req = ''POST'') \<longrightarrow>
      status (fst (handler rt req w)) = 500 \<and>
      payload (fst (handler rt req w)) =
        Some [(''success'', JBool False), (''message'', JStr ''Blob storage not configured'')] \<and>
      snd (handler rt req w) = w) \<and>
   (req_method req = ''OPTIONS'' \<longrightarrow>
      status (fst (handler rt req w)) = 200 \<and> payload (fst (handler rt req w)) = None \<and>
      snd (handler rt req w) = w)"
  by (auto simp add: handler_def configured_def json_stringify_def json_value_def)

theorem unconfigured_rejected_witness:
  "BLOB_READ_WRITE_TOKEN unconfigured_runtime = None \<and>
   req_method example_get = ''GET'' \<and> req_method example_post = ''POST'' \<and>
   status (fst (handler unconfigured_runtime example_get example_world)) = 500 \<and>
   status (fst (handler unconfigured_runtime example_post example_world)) = 500 \<and>
   requests (snd (handler unconfigured_runtime example_post example_world)) =
     requests example_world \<and>
   status (fst (handler unconfigured_runtime \<lparr>req_method = ''OPTIONS'', body = None\<rparr> example_world)) = 200"
proof -
  have u: "BLOB_READ_WRITE_TOKEN unconfigured_runtime = None" by code_simp
  have g: "req_method example_get = ''GET''" by code_simp
  have p: "req_method example_post = ''POST''" by code_simp
  have o: "req_method \<lparr>req_method = ''OPTIONS'', body = None\<rparr> = ''OPTIONS''" by simp
  show ?thesis
    using unconfigured_rejected [of unconfigured_runtime example_get example_world]
      unconfigured_rejected [of unconfigured_runtime example_post example_world]
      unconfigured_rejected
        [of unconfigured_runtime "\<lparr>req_method = ''OPTIONS'', body = None\<rparr>" example_world]
      u g p o
    by simp
qed

subsection \<open>The most recent upload\<close>

lemma set_insert_sorted: "set (insert_sorted cmp x ys) = insert x (set ys)"
  by (induction ys) auto

lemma set_js_sort: "set (js_sort cmp xs) = set xs"
  by (induction xs) (simp_all add: js_sort_def set_insert_sorted)

lemma js_sort_Nil_iff: "js_sort cmp xs = [] \<longleftrightarrow> xs = []"
  using set_js_sort [of cmp xs] by (metis set_empty)

lemma insert_sorted_newest:
  "sorted_wrt (\<lambda>a b. uploadedAt b \<le> uploadedAt a) ys \<Longrightarrow>
     sorted_wrt (\<lambda>a b. uploadedAt b \<le> uploadedAt a) (insert_sorted newest_first x ys)"
  by (induction ys) (auto simp add: newest_first_def set_insert_sorted)

lemma js_sort_newest:
  "sorted_wrt (\<lambda>a b. uploadedAt b \<le> uploadedAt a) (js_sort newest_first xs)"
  by (induction xs) (simp_all add: js_sort_def insert_sorted_newest)

lemma js_sort_head_latest:
  assumes "js_sort newest_first bs = latest # rest"
  shows "latest \<in> set bs \<and> (\<forall>b\<in>set bs. uploadedAt b \<le> uploadedAt latest)"
proof -
  have s: "set bs = insert latest (set rest)"
    using set_js_sort [of newest_first bs] assms by simp
  have "sorted_wrt (\<lambda>a b. uploadedAt b \<le> uploadedAt a) (latest # rest)"
    using js_sort_newest [of bs] assms by simp
  then have "\<forall>b\<in>set rest. uploadedAt b \<le> uploadedAt latest"
    by simp
  with s show ?thesis by auto
qed

lemma handler_get_fetched:
  assumes "configured rt" and "req_method req = ''GET''"
    and "list_answer TOKEN_PREFIX w = ListOk (Some bs)"
    and "js_sort newest_first bs = latest # rest"
  shows "handler rt req w =
           (fetch_outcome rt (get_answer (url latest) w),
            issue (GetBlob (url latest)) (issue (ListBlobs TOKEN_PREFIX) w))"
proof -
  have "bs \<noteq> []"
    using assms(4) js_sort_Nil_iff [of newest_first bs] by auto
  then show ?thesis
    using assms by (simp add: handler_def handle_get_def blob_list_def blob_get_def)
qed

text \<open>
  C2. For every GET request, when the listing of the keys with the prefix
  \<^verbatim>\<open>upstox_access_token\<close> is not empty, the handler fetches the content of the blob that
  stands first after sorting by \<^verbatim>\<open>uploadedAt\<close> descending; that blob is one of the listed
  blobs and its \<^verbatim>\<open>uploadedAt\<close> is greater than or equal to that of every listed blob. The
  handler issues the listing and then the read of that blob, and its response is made from
  the reply to that read.
\<close>

theorem get_fetches_latest:
  assumes "configured rt" and "req_method req = ''GET''"
    and "list_answer ''upstox_access_token'' w = ListOk (Some bs)" and "bs \<noteq> []"
  shows "\<exists>latest rest.
           js_sort newest_first bs = latest # rest \<and>
           latest \<in> set bs \<and>
           (\<forall>b\<in>set bs. uploadedAt b \<le> uploadedAt latest) \<and>
           requests (snd (handler rt req w)) =
             requests w @ [ListBlobs ''upstox_access_token'', GetBlob (url latest)] \<and>
           fst (handler rt req w) = fetch_outcome rt (get_answer (url latest) w)"
proof -
  obtain latest rest where s: "js_sort newest_first bs = latest # rest"
    using assms(4) js_sort_Nil_iff [of newest_first bs] by (cases "js_sort newest_first bs") auto
  have l: "list_answer TOKEN_PREFIX w = ListOk (Some bs)"
    using assms(3) by (simp add: TOKEN_PREFIX_def)
  have "handler rt req w =
           (fetch_outcome rt (get_answer (url latest) w),
            issue (GetBlob (url latest)) (issue (ListBlobs TOKEN_PREFIX) w))"
    by (rule handler_get_fetched [OF assms(1) assms(2) l s])
  then have "requests (snd (handler rt req w)) =
             requests w @ [ListBlobs ''upstox_access_token'', GetBlob (url latest)] \<and>
           fst (handler rt req w) = fetch_outcome rt (get_answer (url latest) w)"
    by (simp add: TOKEN_PREFIX_def)
  with s js_sort_head_latest [OF s] show ?thesis by blast
qed

theorem get_fetches_latest_witness:
  "configured example_runtime \<and> req_method example_get = ''GET'' \<and>
   list_answer ''upstox_access_token'' example_world = ListOk (Some [older_blob, old_blob]) \<and>
   js_sort newest_first [older_blob, old_blob] = [old_blob, older_blob] \<and>
   uploadedAt older_blob \<le> uploadedAt old_blob \<and>
   requests (snd (handler example_runtime example_get example_world)) =
     requests example_world @ [ListBlobs ''upstox_access_token'', GetBlob (url old_blob)]"
proof -
  have c: "configured example_runtime" by code_simp
  have m: "req_method example_get = ''GET''" by code_simp
  have l: "list_answer ''upstox_access_token'' example_world = ListOk (Some [older_blob, old_blob])"
    by code_simp
  have n: "[older_blob, old_blob] \<noteq> []" by simp
  have s: "js_sort newest_first [older_blob, old_blob] = [old_blob, older_blob]" by code_simp
  have u: "uploadedAt older_blob \<le> uploadedAt old_blob" by code_simp
  show ?thesis
    using get_fetches_latest [OF c m l n] c m l s u by simp
qed

subsection \<open>The validity report\<close>


lemma report_valid:
  assumes "\<not> (truthy (get_prop td ''expires_at'') \<and>
             (\<exists>t. js_Date (js_parseInt (get_prop td ''expires_at'')) = Some t \<and> t < now_expired rt))"
  shows "report rt td =
           respond_json 200
             [(''success'', JBool True),
              (''access_token'', get_prop td ''access_token''),
              (''expires_at'', get_prop td ''expires_at''),
              (''expires_in_hours'', timeUntilExpiry rt td),
              (''client_id'', get_prop td ''client_id''),
              (''user_id'', get_prop td ''user_id''),
              (''stored_at'', get_prop td ''stored_at''),
              (''is_valid'', JBool True)]"
proof -
  have "\<not> isExpired rt td"
    using assms by (auto simp add: isExpired_def split: option.splits)
  then show ?thesis by (simp add: report_def)
qed

lemma json_value_Undefined [simp]: "json_value JUndefined = JUndefined"
  by (simp add: json_value_def)

lemma report_valid_fields:
  assumes "\<not> (truthy (get_prop td ''expires_at'') \<and>
             (\<exists>t. js_Date (js_parseInt (get_prop td ''expires_at'')) = Some t \<and> t < now_expired rt))"
  shows "status (report rt td) = 200"
    and "field_of (report rt td) ''success'' = Some (JBool True)"
    and "field_of (report rt td) ''is_valid'' = Some (JBool True)"
    and "field_of (report rt td) ''access_token'' = Some (json_value (get_prop td ''access_token''))"
    and "field_of (report rt td) ''expires_in_hours'' = Some (json_value (timeUntilExpiry rt td))"
  by (simp_all add: report_valid [OF assms] field_of_def get_prop_json_Cons get_prop_json_Nil
      json_value_def)




subsection \<open>One record after a POST\<close>

lemma blobs_delete_effect:
  "blobs (delete_effect u w) =
     (case delete_fault w u of None \<Rightarrow> filter (\<lambda>b. url b \<noteq> u) (blobs w) | Some r \<Rightarrow> blobs w)"
  by (simp add: delete_effect_def split: option.splits)

lemma delete_all_blobs:
  "\<forall>x\<in>set bs. delete_fault w (url x) = None \<Longrightarrow>
     blobs (delete_all bs w) = filter (\<lambda>x. url x \<notin> url ` set bs) (blobs w)"
proof (induction bs arbitrary: w)
  case Nil
  then show ?case by simp
next
  case (Cons b bs)
  let ?w = "delete_effect (url b) (issue (DeleteBlob (url b)) w)"
  have f: "\<forall>x\<in>set bs. delete_fault ?w (url x) = None"
    using Cons.prems by simp
  have "blobs ?w = filter (\<lambda>x. url x \<noteq> url b) (blobs w)"
    using Cons.prems by (simp add: blobs_delete_effect)
  then show ?case
    using Cons.IH [OF f] by (auto simp add: blob_delete_def intro: filter_cong)
qed



lemma cleanup_blobs_clean:
  assumes "list_fault w = None"
    and "\<forall>x\<in>set (blobs w). has_prefix TOKEN_PREFIX x \<longrightarrow> delete_fault w (url x) = None"
  shows "filter (has_prefix TOKEN_PREFIX) (blobs (cleanup w)) = []"
proof -
  let ?bs = "filter (has_prefix TOKEN_PREFIX) (blobs w)"
  have l: "list_answer TOKEN_PREFIX w = ListOk (Some ?bs)"
    using assms(1) by (simp add: list_answer_def)
  show ?thesis
  proof (cases "?bs = []")
    case True
    then show ?thesis using l by (simp add: cleanup_def blob_list_def)
  next
    case False
    have d: "\<forall>x\<in>set ?bs. delete_fault (issue (ListBlobs TOKEN_PREFIX) w) (url x) = None"
      using assms(2) by simp
    have "blobs (cleanup w) = filter (\<lambda>x. url x \<notin> url ` set ?bs) (blobs w)"
      using l False delete_all_blobs [OF d] by (simp add: cleanup_def blob_list_def)
    then show ?thesis by (auto simp add: filter_empty_conv)
  qed
qed

lemma has_prefix_uniqueFilename: "has_prefix TOKEN_PREFIX (new_blob w (uniqueFilename rt) d)"
  by (simp add: has_prefix_def new_blob_def uniqueFilename_def)

text \<open>
  C4. The claim reads: after every POST that responds with 200 the newly written key is
  the only key with the prefix \<^verbatim>\<open>upstox_access_token\<close> in the store. It holds when the
  listing, the DELETE of every blob with the prefix and the PUT are carried out by the
  service: the blobs with the prefix are then exactly the new blob, named
  \<^verbatim>\<open>upstox_access_token_<Date.now()>.json\<close>.
\<close>

theorem post_replaces_records:
  assumes "req_method req = ''POST''" and "status (fst (handler rt req w)) = 200"
    and "list_fault w = None"
    and "\<forall>x\<in>set (blobs w). has_prefix ''upstox_access_token'' x \<longrightarrow> delete_fault w (url x) = None"
    and "put_fault w = None"
  shows "\<exists>b. body req = Some b \<and>
           filter (has_prefix ''upstox_access_token'') (blobs (snd (handler rt req w))) =
             [new_blob w (uniqueFilename rt) (json_stringify (tokenData rt b))] \<and>
           pathname (new_blob w (uniqueFilename rt) (json_stringify (tokenData rt b))) =
             ''upstox_access_token_'' @ show_int (now_filename rt) @ ''.json''"
proof -
  obtain b where c: "configured rt" and b: "body req = Some b"
    and t: "truthy (get_prop b ''access_token'')"
    using handler_post_200 [OF assms(1) assms(2)] by blast
  let ?n = "uniqueFilename rt" and ?d = "json_stringify (tokenData rt b)"
  have d: "\<forall>x\<in>set (blobs w). has_prefix TOKEN_PREFIX x \<longrightarrow> delete_fault w (url x) = None"
    using assms(4) by (simp add: TOKEN_PREFIX_def)
  have e: "filter (has_prefix TOKEN_PREFIX) (blobs (cleanup w)) = []"
    by (rule cleanup_blobs_clean [OF assms(3) d])
  then have e': "filter (has_prefix TOKEN_PREFIX) (filter (\<lambda>x. pathname x \<noteq> ?n) (blobs (cleanup w))) = []"
    by (auto simp add: filter_empty_conv)
  have "blobs (snd (handler rt req w)) =
          filter (\<lambda>x. pathname x \<noteq> ?n) (blobs (cleanup w)) @ [new_blob w ?n ?d]"
    using handler_post_accepted [OF c assms(1) b t, of w] assms(5)
    by (simp add: put_effect_def new_blob_def)
  then have "filter (has_prefix TOKEN_PREFIX) (blobs (snd (handler rt req w))) = [new_blob w ?n ?d]"
    using e' has_prefix_uniqueFilename [of w rt ?d] by simp
  then show ?thesis
    using b by (simp add: TOKEN_PREFIX_def new_blob_def uniqueFilename_def)
qed

theorem post_replaces_records_witness:
  "req_method example_post = ''POST'' \<and>
   status (fst (handler example_runtime example_post example_world)) = 200 \<and>
   list_fault example_world = None \<and> put_fault example_world = None \<and>
   map pathname (filter (has_prefix ''upstox_access_token'')
     (blobs (snd (handler example_runtime example_post example_world)))) =
     [''upstox_access_token_1700000000002.json'']"
proof -
  have m: "req_method example_post = ''POST''" by code_simp
  have s: "status (fst (handler example_runtime example_post example_world)) = 200" by code_simp
  have l: "list_fault example_world = None" by code_simp
  have d: "\<forall>x\<in>set (blobs example_world).
     has_prefix ''upstox_access_token'' x \<longrightarrow> delete_fault example_world (url x) = None"
    by (simp add: example_world_def)
  have p: "put_fault example_world = None" by code_simp
  have n: "show_int (now_filename example_runtime) = ''1700000000002''" by code_simp
  show ?thesis
    using post_replaces_records [OF m s l d p] m s l p by (auto simp add: n)
qed

text \<open>
  C4, as stated: when the service answers every DELETE with status 500 the POST still
  responds with 200, and the two earlier keys remain next to the new one.
\<close>

theorem post_failed_delete_counterexample:
  "req_method example_post = ''POST'' \<and>
   status (fst (handler example_runtime example_post undeletable_world)) = 200 \<and>
   map pathname (filter (has_prefix ''upstox_access_token'')
     (blobs (snd (handler example_runtime example_post undeletable_world)))) =
     [''upstox_access_token_1.json'', ''upstox_access_token_2.json'',
      ''upstox_access_token_1700000000002.json'']"
  by code_simp

subsection \<open>Errors and status codes\<close>

lemma not_found_fields:
  "status not_found = 404" "field_of not_found ''success'' = Some (JBool False)"
  by (simp_all add: not_found_def field_of_def get_prop_json_Cons json_value_def)

lemma handler_get_empty:
  assumes "configured rt" and "req_method req = ''GET''"
    and "list_answer TOKEN_PREFIX w = ListOk None \<or> list_answer TOKEN_PREFIX w = ListOk (Some [])"
  shows "fst (handler rt req w) = not_found"
  using assms by (auto simp add: handler_def handle_get_def blob_list_def)

text \<open>
  C5. The claim reads: a POST whose body lacks \<^verbatim>\<open>access_token\<close> gets 400, a GET when
  no key with the prefix exists gets 404, a failure of the PUT during a POST gets 500, and
  a request whose method is not GET, POST or OPTIONS gets 405, each with
  \<^verbatim>\<open>success: false\<close>. It holds when \<^verbatim>\<open>BLOB_READ_WRITE_TOKEN\<close> is set, for a POST whose
  body is an object with no truthy \<^verbatim>\<open>access_token\<close>, for a GET whose listing has no
  blobs, for a POST whose PUT is rejected, is not \<^verbatim>\<open>ok\<close> or has no JSON body, and for
  any other method.
\<close>

theorem error_status_codes:
  assumes "configured rt"
  shows "(req_method req = ''POST'' \<and> body req = Some b \<and> \<not> truthy (get_prop b ''access_token'') \<longrightarrow>
            status (fst (handler rt req w)) = 400 \<and>
            field_of (fst (handler rt req w)) ''success'' = Some (JBool False)) \<and>
         (req_method req = ''GET'' \<and>
          (list_answer ''upstox_access_token'' w = ListOk None \<or>
           list_answer ''upstox_access_token'' w = ListOk (Some [])) \<longrightarrow>
            status (fst (handler rt req w)) = 404 \<and>
            field_of (fst (handler rt req w)) ''success'' = Some (JBool False)) \<and>
         (req_method req = ''POST'' \<and> body req = Some b \<and> truthy (get_prop b ''access_token'') \<and>
          \<not> put_succeeds w \<longrightarrow>
            status (fst (handler rt req w)) = 500 \<and>
            field_of (fst (handler rt req w)) ''success'' = Some (JBool False)) \<and>
         (req_method req \<noteq> ''GET'' \<and> req_method req \<noteq> ''POST'' \<and> req_method req \<noteq> ''OPTIONS'' \<longrightarrow>
            status (fst (handler rt req w)) = 405 \<and>
            field_of (fst (handler rt req w)) ''success'' = Some (JBool False))"
proof (intro conjI impI)
  assume a: "req_method req = ''POST'' \<and> body req = Some b \<and> \<not> truthy (get_prop b ''access_token'')"
  with assms show "status (fst (handler rt req w)) = 400"
    by (simp add: handler_def handle_post_def)
  from a assms show "field_of (fst (handler rt req w)) ''success'' = Some (JBool False)"
    by (simp add: handler_def handle_post_def field_of_def get_prop_json_Cons json_value_def)
next
  assume a: "req_method req = ''GET'' \<and>
          (list_answer ''upstox_access_token'' w = ListOk None \<or>
           list_answer ''upstox_access_token'' w = ListOk (Some []))"
  then have "fst (handler rt req w) = not_found"
    using handler_get_empty [OF assms, of req w] by (simp add: TOKEN_PREFIX_def)
  then show "status (fst (handler rt req w)) = 404"
    and "field_of (fst (handler rt req w)) ''success'' = Some (JBool False)"
    by (simp_all add: not_found_fields)
next
  assume a: "req_method req = ''POST'' \<and> body req = Some b \<and> truthy (get_prop b ''access_token'') \<and>
          \<not> put_succeeds w"
  then have h: "fst (handler rt req w) =
      store_outcome rt (tokenData rt b) (put_answer (uniqueFilename rt) w)"
    using handler_post_accepted [OF assms, of req b w] by simp
  from a show "status (fst (handler rt req w)) = 500"
    by (simp add: h store_outcome_status)
  from a show "field_of (fst (handler rt req w)) ''success'' = Some (JBool False)"
    by (simp add: h store_outcome_failure)
next
  assume a: "req_method req \<noteq> ''GET'' \<and> req_method req \<noteq> ''POST'' \<and> req_method req \<noteq> ''OPTIONS''"
  with assms show "status (fst (handler rt req w)) = 405"
    by (simp add: handler_def)
  from a assms show "field_of (fst (handler rt req w)) ''success'' = Some (JBool False)"
    by (simp add: handler_def field_of_def get_prop_json_Cons json_value_def)
qed

theorem error_status_codes_witness:
  "configured example_runtime \<and>
   status (fst (handler example_runtime \<lparr>req_method = ''POST'', body = Some []\<rparr> example_world)) = 400 \<and>
   status (fst (handler example_runtime example_get empty_world)) = 404 \<and>
   status (fst (handler example_runtime example_post unwritable_world)) = 500 \<and>
   status (fst (handler example_runtime \<lparr>req_method = ''DELETE'', body = None\<rparr> example_world)) = 405"
proof -
  have c: "configured example_runtime" by code_simp
  have p: "req_method example_post = ''POST''" by code_simp
  have b: "body example_post =
    Some [(''access_token'', JStr ''tok''), (''expires_at'', JStr ''1700003600000''),
          (''client_id'', JStr ''c1'')]" by code_simp
  have t: "truthy (get_prop [(''access_token'', JStr ''tok''), (''expires_at'', JStr ''1700003600000''),
          (''client_id'', JStr ''c1'')] ''access_token'')" by code_simp
  have f: "\<not> truthy (get_prop [] ''access_token'')" by code_simp
  have g: "req_method example_get = ''GET''" by code_simp
  have l: "list_answer ''upstox_access_token'' empty_world = ListOk (Some [])" by code_simp
  have u: "\<not> put_succeeds unwritable_world" by code_simp
  show ?thesis
    using error_status_codes [OF c, of "\<lparr>req_method = ''POST'', body = Some []\<rparr>" "[]" example_world]
      error_status_codes [OF c, of example_get _ empty_world]
      error_status_codes [OF c, of example_post _ unwritable_world]
      error_status_codes [OF c, of "\<lparr>req_method = ''DELETE'', body = None\<rparr>" _ example_world]
      c p b t f g l u
    by simp
qed

text \<open>
  C5, as stated: with \<^verbatim>\<open>BLOB_READ_WRITE_TOKEN\<close> unset a DELETE request is answered with
  500 and not 405, and a POST whose body lacks \<^verbatim>\<open>access_token\<close> with 500 and not 400.
\<close>

theorem unconfigured_method_counterexample:
  "req_method \<lparr>req_method = ''DELETE'', body = None\<rparr> \<noteq> ''GET'' \<and>
   req_method \<lparr>req_method = ''DELETE'', body = None\<rparr> \<noteq> ''POST'' \<and>
   req_method \<lparr>req_method = ''DELETE'', body = None\<rparr> \<noteq> ''OPTIONS'' \<and>
   status (fst (handler unconfigured_runtime \<lparr>req_method = ''DELETE'', body = None\<rparr> example_world)) = 500 \<and>
   get_prop [] ''access_token'' = JUndefined \<and>
   status (fst (handler unconfigured_runtime \<lparr>req_method = ''POST'', body = Some []\<rparr> example_world)) = 500"
  by code_simp

subsection \<open>The stored record\<close>





subsection \<open>Best-effort cleanup\<close>



subsection \<open>A record without an expiry\<close>

text \<open>
  C10. A token record stored without an \<^verbatim>\<open>expires_at\<close> field is treated as never
  expiring: the record sent to the store has \<^verbatim>\<open>expires_in_hours: null\<close>, and a GET that
  retrieves a record without \<^verbatim>\<open>expires_at\<close> is answered with 200 (never 410),
  \<^verbatim>\<open>is_valid: true\<close> and \<^verbatim>\<open>expires_in_hours: null\<close>.
\<close>

theorem no_expiry_never_expires:
  "(configured rt \<and> req_method req = ''POST'' \<and> body req = Some b \<and>
    truthy (get_prop b ''access_token'') \<and> get_prop b ''expires_at'' = JUndefined \<longrightarrow>
      (\<exists>pre data.
         requests (snd (handler rt req w)) = pre @ [PutBlob (uniqueFilename rt) data] \<and>
         get_prop data ''expires_at'' = JUndefined \<and>
         get_prop data ''expires_in_hours'' = JNull)) \<and>
   (configured rt \<and> req_method req = ''GET'' \<and>
    list_answer ''upstox_access_token'' w = ListOk (Some bs) \<and>
    js_sort newest_first bs = latest # rest \<and>
    get_answer (url latest) w = GetOk (ParsedObject td) \<and>
    get_prop td ''expires_at'' = JUndefined \<longrightarrow>
      status (fst (handler rt req w)) = 200 \<and>
      field_of (fst (handler rt req w)) ''is_valid'' = Some (JBool True) \<and>
      field_of (fst (handler rt req w)) ''expires_in_hours'' = Some JNull)"
proof (intro conjI impI)
  assume a: "configured rt \<and> req_method req = ''POST'' \<and> body req = Some b \<and>
    truthy (get_prop b ''access_token'') \<and> get_prop b ''expires_at'' = JUndefined"
  let ?d = "json_stringify (tokenData rt b)"
  have "handler rt req w =
           (store_outcome rt (tokenData rt b) (put_answer (uniqueFilename rt) w),
            put_effect (uniqueFilename rt) ?d (issue (PutBlob (uniqueFilename rt) ?d) (cleanup w)))"
    using a handler_post_accepted [of rt req b w] by simp
  then have r: "requests (snd (handler rt req w)) = requests (cleanup w) @ [PutBlob (uniqueFilename rt) ?d]"
    by simp
  have e: "get_prop ?d ''expires_at'' = JUndefined"
    using a by (simp add: tokenData_def get_prop_json_Cons get_prop_json_Nil json_value_def)
  have n: "get_prop ?d ''expires_in_hours'' = JNull"
    using a by (simp add: tokenData_def get_prop_json_Cons get_prop_json_Nil json_value_def)
  show "\<exists>pre data.
         requests (snd (handler rt req w)) = pre @ [PutBlob (uniqueFilename rt) data] \<and>
         get_prop data ''expires_at'' = JUndefined \<and>
         get_prop data ''expires_in_hours'' = JNull"
    by (rule exI [of _ "requests (cleanup w)"], rule exI [of _ ?d]) (intro conjI r e n)
next
  assume a: "configured rt \<and> req_method req = ''GET'' \<and>
    list_answer ''upstox_access_token'' w = ListOk (Some bs) \<and>
    js_sort newest_first bs = latest # rest \<and>
    get_answer (url latest) w = GetOk (ParsedObject td) \<and>
    get_prop td ''expires_at'' = JUndefined"
  then have l: "list_answer TOKEN_PREFIX w = ListOk (Some bs)"
    by (simp add: TOKEN_PREFIX_def)
  have r: "fst (handler rt req w) = report rt td"
    using a l handler_get_fetched [of rt req w bs latest rest] by (simp add: fetch_outcome_def)
  have v: "\<not> (truthy (get_prop td ''expires_at'') \<and>
             (\<exists>t. js_Date (js_parseInt (get_prop td ''expires_at'')) = Some t \<and> t < now_expired rt))"
    using a by simp
  have u: "timeUntilExpiry rt td = JNull"
    using a by (simp add: timeUntilExpiry_def)
  show "status (fst (handler rt req w)) = 200"
    by (simp add: r report_valid_fields(1) [OF v])
  show "field_of (fst (handler rt req w)) ''is_valid'' = Some (JBool True)"
    by (simp add: r report_valid_fields(3) [OF v])
  show "field_of (fst (handler rt req w)) ''expires_in_hours'' = Some JNull"
    by (simp add: r report_valid_fields(5) [OF v] u json_value_def)
qed

theorem no_expiry_never_expires_witness:
  "configured example_runtime \<and>
   get_prop no_expiry_body ''expires_at'' = JUndefined \<and>
   requests (snd (handler example_runtime \<lparr>req_method = ''POST'', body = Some no_expiry_body\<rparr> empty_world)) =
     [ListBlobs ''upstox_access_token'',
      PutBlob ''upstox_access_token_1700000000002.json''
        [(''access_token'', JStr ''tok''), (''user_id'', JStr ''u1''),
         (''stored_at'', JStr ''1700000000000''), (''expires_in_hours'', JNull)]] \<and>
   get_answer ''https://blob.example/z'' (world_holding no_expiry_body) =
     GetOk (ParsedObject no_expiry_body) \<and>
   status (fst (handler example_runtime example_get (world_holding no_expiry_body))) = 200 \<and>
   field_of (fst (handler example_runtime example_get (world_holding no_expiry_body))) ''expires_in_hours'' =
     Some JNull"
proof -
  have c: "configured example_runtime" by code_simp
  have e: "get_prop no_expiry_body ''expires_at'' = JUndefined" by code_simp
  have p: "req_method \<lparr>req_method = ''POST'', body = Some no_expiry_body\<rparr> = ''POST'' \<and>
     body \<lparr>req_method = ''POST'', body = Some no_expiry_body\<rparr> = Some no_expiry_body" by simp
  have t: "truthy (get_prop no_expiry_body ''access_token'')" by code_simp
  have q: "requests (snd (handler example_runtime \<lparr>req_method = ''POST'', body = Some no_expiry_body\<rparr> empty_world)) =
     [ListBlobs ''upstox_access_token'',
      PutBlob ''upstox_access_token_1700000000002.json''
        [(''access_token'', JStr ''tok''), (''user_id'', JStr ''u1''),
         (''stored_at'', JStr ''1700000000000''), (''expires_in_hours'', JNull)]]" by code_simp
  have m: "req_method example_get = ''GET''" by code_simp
  have l: "list_answer ''upstox_access_token'' (world_holding no_expiry_body) =
     ListOk (Some (blobs (world_holding no_expiry_body)))" by code_simp
  have s: "js_sort newest_first (blobs (world_holding no_expiry_body)) =
     hd (blobs (world_holding no_expiry_body)) # []" by code_simp
  have g: "get_answer (url (hd (blobs (world_holding no_expiry_body)))) (world_holding no_expiry_body) =
     GetOk (ParsedObject no_expiry_body)" by code_simp
  have g': "get_answer ''https://blob.example/z'' (world_holding no_expiry_body) =
     GetOk (ParsedObject no_expiry_body)" by code_simp
  have pa: "configured example_runtime \<and>
     req_method \<lparr>req_method = ''POST'', body = Some no_expiry_body\<rparr> = ''POST'' \<and>
     body \<lparr>req_method = ''POST'', body = Some no_expiry_body\<rparr> = Some no_expiry_body \<and>
     truthy (get_prop no_expiry_body ''access_token'') \<and>
     get_prop no_expiry_body ''expires_at'' = JUndefined"
    using c p t e by simp
  have pc: "\<exists>pre data.
     requests (snd (handler example_runtime \<lparr>req_method = ''POST'', body = Some no_expiry_body\<rparr> empty_world)) =
       pre @ [PutBlob (uniqueFilename example_runtime) data] \<and>
     get_prop data ''expires_at'' = JUndefined \<and> get_prop data ''expires_in_hours'' = JNull"
    by (rule mp [OF no_expiry_never_expires [THEN conjunct1] pa])
  have ga: "configured example_runtime \<and> req_method example_get = ''GET'' \<and>
     list_answer ''upstox_access_token'' (world_holding no_expiry_body) =
       ListOk (Some (blobs (world_holding no_expiry_body))) \<and>
     js_sort newest_first (blobs (world_holding no_expiry_body)) =
       hd (blobs (world_holding no_expiry_body)) # [] \<and>
     get_answer (url (hd (blobs (world_holding no_expiry_body)))) (world_holding no_expiry_body) =
       GetOk (ParsedObject no_expiry_body) \<and>
     get_prop no_expiry_body ''expires_at'' = JUndefined"
    by (intro conjI c m l s g e)
  have gc: "status (fst (handler example_runtime example_get (world_holding no_expiry_body))) = 200 \<and>
     field_of (fst (handler example_runtime example_get (world_holding no_expiry_body))) ''is_valid'' =
       Some (JBool True) \<and>
     field_of (fst (handler example_runtime example_get (world_holding no_expiry_body))) ''expires_in_hours'' =
       Some JNull"
    by (rule mp [OF no_expiry_never_expires [THEN conjunct2] ga])
  show ?thesis
    using pc by (intro conjI c e q g' gc [THEN conjunct1] gc [THEN conjunct2, THEN conjunct2])
qed

end
